theory Spec2Isabelle
  imports Complex_Main "HOL-Library.Sublist"
begin

section \<open>JavaScript strings and values\<close>

text \<open>
  Strings are lists of characters. The character classes below are the ASCII members of
  the classes the regular expressions of the source name: \<open>[a-z]\<close>, \<open>[A-Z]\<close>,
  \<open>[0-9]\<close>, \<open>\s\<close> and the line terminators that \<open>.\<close> does not match. Case
  conversion is ASCII case conversion; a character outside ASCII is left alone and
  belongs to no class, so the development speaks about ASCII text.
\<close>

definition isLower :: "char \<Rightarrow> bool" where
  "isLower c \<longleftrightarrow> 97 \<le> (of_char c :: nat) \<and> (of_char c :: nat) \<le> 122"

definition isUpper :: "char \<Rightarrow> bool" where
  "isUpper c \<longleftrightarrow> 65 \<le> (of_char c :: nat) \<and> (of_char c :: nat) \<le> 90"

definition isDigit :: "char \<Rightarrow> bool" where
  "isDigit c \<longleftrightarrow> 48 \<le> (of_char c :: nat) \<and> (of_char c :: nat) \<le> 57"

definition isAlnum :: "char \<Rightarrow> bool" where
  "isAlnum c \<longleftrightarrow> isLower c \<or> isUpper c \<or> isDigit c"

definition isSpace :: "char \<Rightarrow> bool" where
  "isSpace c \<longleftrightarrow> (9 \<le> (of_char c :: nat) \<and> (of_char c :: nat) \<le> 13) \<or> (of_char c :: nat) = 32"

definition isLineTerminator :: "char \<Rightarrow> bool" where
  "isLineTerminator c \<longleftrightarrow> (of_char c :: nat) = 10 \<or> (of_char c :: nat) = 13"

definition isParen :: "char \<Rightarrow> bool" where
  "isParen c \<longleftrightarrow> (of_char c :: nat) = 40 \<or> (of_char c :: nat) = 41"

definition toLowerChar :: "char \<Rightarrow> char" where
  "toLowerChar c = (if isUpper c then char_of ((of_char c :: nat) + 32) else c)"

definition toUpperChar :: "char \<Rightarrow> char" where
  "toUpperChar c = (if isLower c then char_of ((of_char c :: nat) - 32) else c)"

definition toLowerCase :: "string \<Rightarrow> string" where
  "toLowerCase s = map toLowerChar s"

text \<open>\<open>s.replace(/[class]+/g, rep)\<close>: every maximal run of characters of the class
  becomes one copy of \<open>rep\<close>.\<close>

function replaceRuns :: "(char \<Rightarrow> bool) \<Rightarrow> string \<Rightarrow> string \<Rightarrow> string" where
  "replaceRuns p rep [] = []"
| "replaceRuns p rep (c # cs) =
     (if p c then rep @ replaceRuns p rep (dropWhile p cs)
      else c # replaceRuns p rep cs)"
  by pat_completeness auto
termination
  by (relation "measure (\<lambda>(p, rep, s). length s)")
     (auto simp: length_dropWhile_le less_Suc_eq_le)

text \<open>\<open>s.replace(/[class]/g, '')\<close> deletes the characters of the class.\<close>

definition removeAll_class :: "(char \<Rightarrow> bool) \<Rightarrow> string \<Rightarrow> string" where
  "removeAll_class p s = filter (\<lambda>c. \<not> p c) s"

text \<open>\<open>s.replace(/([a-z])([A-Z])/g, '$1-$2')\<close>: scanning from the left, a lower-case
  letter followed by an upper-case one is rewritten with a hyphen between them and the
  scan goes on after the pair.\<close>

fun replaceLowerUpper :: "string \<Rightarrow> string" where
  "replaceLowerUpper (a # b # r) =
     (if isLower a \<and> isUpper b then a # CHR ''-'' # b # replaceLowerUpper r
      else a # replaceLowerUpper (b # r))"
| "replaceLowerUpper r = r"

text \<open>
  \<open>s.replace(/[^a-zA-Z0-9]+(.)/g, (_, chr) => chr.toUpperCase())\<close>. A run of
  non-alphanumeric characters together with the character after it is replaced by that
  character in upper case. When the run reaches the end of the string the greedy \<open>+\<close>
  backtracks: the last character of the run that is not a line terminator and is not the
  first of the run is the one \<open>.\<close> matches, and what follows it stays as it is; when
  there is no such character the run is not a match and stays whole.
\<close>

definition replaceRunAtEnd :: "string \<Rightarrow> string" where
  "replaceRunAtEnd run =
     (case dropWhile isLineTerminator (rev (tl run)) of
        [] \<Rightarrow> run
      | x # _ \<Rightarrow> toUpperChar x # rev (takeWhile isLineTerminator (rev (tl run))))"

function replaceBoundaries :: "string \<Rightarrow> string" where
  "replaceBoundaries [] = []"
| "replaceBoundaries (c # cs) =
     (if isAlnum c then c # replaceBoundaries cs
      else (case dropWhile (\<lambda>x. \<not> isAlnum x) cs of
              [] \<Rightarrow> replaceRunAtEnd (c # cs)
            | d # rest \<Rightarrow> toUpperChar d # replaceBoundaries rest))"
  by pat_completeness auto
termination
proof (relation "measure length")
  show "wf (measure length)" by simp
next
  fix c :: char and cs :: string
  assume "isAlnum c"
  show "(cs, c # cs) \<in> measure length" by simp
next
  fix c :: char and cs :: string and d :: char and rest :: string
  assume "dropWhile (\<lambda>x. \<not> isAlnum x) cs = d # rest"
  then have "length (d # rest) \<le> length cs"
    by (metis length_dropWhile_le)
  then show "(rest, c # cs) \<in> measure length" by simp
qed

section \<open>Slug and name derivation\<close>

subsection \<open>\<open>ServiceMDXGenerator\<close> (mdx-generator.ts)\<close>

definition toKebabCase :: "string \<Rightarrow> string" where
  "toKebabCase str =
     toLowerCase
       (removeAll_class (\<lambda>c. \<not> (isAlnum c \<or> c = CHR ''-''))
         (replaceRuns (\<lambda>c. isSpace c \<or> c = CHR ''_'' \<or> isParen c) ''-''
           (replaceLowerUpper str)))"

text \<open>\<open>.replace(/^[A-Z]/, chr => chr.toLowerCase())\<close> and its upper-case twin.\<close>

definition lowerFirstUpper :: "string \<Rightarrow> string" where
  "lowerFirstUpper s = (case s of c # cs \<Rightarrow> (if isUpper c then toLowerChar c # cs else s) | [] \<Rightarrow> s)"

definition upperFirstLower :: "string \<Rightarrow> string" where
  "upperFirstLower s = (case s of c # cs \<Rightarrow> (if isLower c then toUpperChar c # cs else s) | [] \<Rightarrow> s)"

definition toCamelCase :: "string \<Rightarrow> string" where
  "toCamelCase str = lowerFirstUpper (replaceBoundaries str)"

definition toPascalCase :: "string \<Rightarrow> string" where
  "toPascalCase str = upperFirstLower (replaceBoundaries str)"

definition generateFilename :: "string \<Rightarrow> string" where
  "generateFilename serviceName = toPascalCase serviceName @ ''.mdx''"

subsection \<open>The sample scripts (generate-samples.js, generate-samples-fumadocs.js)\<close>

text \<open>The three names \<open>generateServiceMDX\<close> derives from \<open>service.name\<close>;
  \<open>lowerFirst p\<close> is \<open>p.charAt(0).toLowerCase() + p.slice(1)\<close>.\<close>

definition kebabName :: "string \<Rightarrow> string" where
  "kebabName name = removeAll_class isParen (replaceRuns isSpace ''-'' (toLowerCase name))"

definition pascalName :: "string \<Rightarrow> string" where
  "pascalName name = removeAll_class isParen (replaceRuns isSpace [] name)"

definition lowerFirst :: "string \<Rightarrow> string" where
  "lowerFirst p = (case p of [] \<Rightarrow> [] | c # cs \<Rightarrow> toLowerChar c # cs)"

definition camelName :: "string \<Rightarrow> string" where
  "camelName name = lowerFirst (pascalName name)"

text \<open>What the slug claim asks of every character of a path slug.\<close>

definition slugChar :: "char \<Rightarrow> bool" where
  "slugChar c \<longleftrightarrow> \<not> isSpace c \<and> \<not> isParen c \<and> \<not> isUpper c"

section \<open>NAICS registry (naics-parser.ts)\<close>

text \<open>
  The interfaces of the parser. The TypeScript declarations give \<open>code\<close> and
  \<open>title\<close> the type \<open>string\<close>, but nothing checks that at run time, and what the
  renderer does with a record that lacks one of the two is asked about below: so these two
  are optional here as the declared optional fields are, \<open>None\<close> being
  \<open>undefined\<close>. The other required members are there in every record of the model:
  an industry has its sector, and the options of the renderer have their industry and
  their classification. The model says nothing about objects that lack those.
\<close>

record NAICSSector =
  code :: string
  name :: string
  description :: "string option"

record NAICSIndustry =
  code :: "string option"
  title :: "string option"
  description :: "string option"
  sector :: NAICSSector

record NAICSClassification =
  code :: "string option"
  title :: "string option"
  sector :: string
  sectorName :: string
  subsector :: "string option"
  industryGroup :: "string option"
  industryGroupName :: "string option"

definition sector54 :: NAICSSector where
  "sector54 = \<lparr> NAICSSector.code = ''54'',
     NAICSSector.name = ''Professional, Scientific, and Technical Services'',
     NAICSSector.description = Some ''Industries comprising establishments that specialize in performing professional, scientific, and technical activities for others'' \<rparr>"

definition sector72 :: NAICSSector where
  "sector72 = \<lparr> NAICSSector.code = ''72'',
     NAICSSector.name = ''Accommodation and Food Services'',
     NAICSSector.description = Some ''Industries providing customers with lodging and/or preparing meals, snacks, and beverages for immediate consumption'' \<rparr>"

definition sector62 :: NAICSSector where
  "sector62 = \<lparr> NAICSSector.code = ''62'',
     NAICSSector.name = ''Health Care and Social Assistance'',
     NAICSSector.description = Some ''Industries providing health care and social assistance for individuals'' \<rparr>"

definition sector61 :: NAICSSector where
  "sector61 = \<lparr> NAICSSector.code = ''61'',
     NAICSSector.name = ''Educational Services'',
     NAICSSector.description = Some ''Industries providing instruction and training in a wide variety of subjects'' \<rparr>"

definition mkIndustry :: "string \<Rightarrow> string \<Rightarrow> string \<Rightarrow> NAICSSector \<Rightarrow> NAICSIndustry" where
  "mkIndustry c t d s = \<lparr> NAICSIndustry.code = Some c, NAICSIndustry.title = Some t,
     NAICSIndustry.description = Some d, NAICSIndustry.sector = s \<rparr>"

text \<open>The sample table \<open>NAICS_DATA\<close>, in the order of the source; each entry is stored
  under its own code.\<close>

definition NAICS_DATA_entries :: "(string \<times> NAICSIndustry) list" where
  "NAICS_DATA_entries =
   [(''541511'', mkIndustry ''541511'' ''Custom Computer Programming Services''
       ''Writing, modifying, testing, and supporting software to meet the needs of a particular customer'' sector54),
    (''541512'', mkIndustry ''541512'' ''Computer Systems Design Services''
       ''Planning and designing computer systems that integrate computer hardware, software, and communication technologies'' sector54),
    (''541513'', mkIndustry ''541513'' ''Computer Facilities Management Services''
       ''Providing on-site management and operation of clients computer systems and/or data processing facilities'' sector54),
    (''722511'', mkIndustry ''722511'' ''Full-Service Restaurants''
       ''Providing food services to patrons who order and are served while seated and pay after eating'' sector72),
    (''722513'', mkIndustry ''722513'' ''Limited-Service Restaurants''
       ''Providing food services where patrons generally order or select items and pay before eating'' sector72),
    (''541110'', mkIndustry ''541110'' ''Offices of Lawyers''
       ''Legal advice and representation in civil and criminal legal matters'' sector54),
    (''541211'', mkIndustry ''541211'' ''Offices of Certified Public Accountants''
       ''Providing accounting, auditing, and bookkeeping services'' sector54),
    (''621111'', mkIndustry ''621111'' ''Offices of Physicians (except Mental Health Specialists)''
       ''Providing medical care services by licensed physicians'' sector62),
    (''621210'', mkIndustry ''621210'' ''Offices of Dentists''
       ''Providing dental care services by licensed dentists'' sector62),
    (''611110'', mkIndustry ''611110'' ''Elementary and Secondary Schools''
       ''Providing academic courses and associated course work that comprise a basic preparatory education'' sector61)]"

definition NAICS_DATA :: "string \<rightharpoonup> NAICSIndustry" where
  "NAICS_DATA = map_of NAICS_DATA_entries"

text \<open>The parser holds its table in \<open>this.data\<close>; the table is the first argument of
  each method here. A stored industry is an object and so truthy: \<open>this.data[code] || null\<close>
  is the stored entry, or \<open>null\<close> when \<open>code\<close> is not a key of the table. (The
  table is read by its own keys: the property names every JavaScript object inherits are
  left aside, here and in the other lookups in object literals.)\<close>

definition getIndustry :: "(string \<rightharpoonup> NAICSIndustry) \<Rightarrow> string \<Rightarrow> NAICSIndustry option" where
  "getIndustry data code' = data code'"

definition industryGroupNames :: "(string \<times> string) list" where
  "industryGroupNames =
   [(''5415'', ''Computer Systems Design and Related Services''),
    (''7225'', ''Restaurants and Other Eating Places''),
    (''5411'', ''Legal Services''),
    (''5412'', ''Accounting, Tax Preparation, Bookkeeping, and Payroll Services''),
    (''6211'', ''Offices of Physicians''),
    (''6212'', ''Offices of Dentists''),
    (''6111'', ''Elementary and Secondary Schools'')]"

definition getIndustryGroupName :: "string option \<Rightarrow> string option" where
  "getIndustryGroupName industryGroup' =
     (case industryGroup' of None \<Rightarrow> None
      | Some g \<Rightarrow> (if g = [] then None else map_of industryGroupNames g))"

definition getClassification ::
  "(string \<rightharpoonup> NAICSIndustry) \<Rightarrow> string \<Rightarrow> NAICSClassification option" where
  "getClassification data code' =
     (case getIndustry data code' of
        None \<Rightarrow> None
      | Some industry \<Rightarrow>
          (let sector = take 2 code';
               subsector = (if length code' \<ge> 3 then Some (take 3 code') else None);
               industryGroup = (if length code' \<ge> 4 then Some (take 4 code') else None)
           in Some \<lparr> NAICSClassification.code = NAICSIndustry.code industry,
                     NAICSClassification.title = NAICSIndustry.title industry,
                     NAICSClassification.sector = sector,
                     NAICSClassification.sectorName = NAICSSector.name (NAICSIndustry.sector industry),
                     NAICSClassification.subsector = subsector,
                     NAICSClassification.industryGroup = industryGroup,
                     NAICSClassification.industryGroupName = getIndustryGroupName industryGroup \<rparr>))"

section \<open>Document renderer (mdx-generator.ts)\<close>

subsection \<open>JavaScript idioms\<close>

datatype js_error = TypeError

definition apostrophe :: string where
  "apostrophe = [CHR 0x27]"

definition backslash :: string where
  "backslash = [CHR 0x5C]"

text \<open>A value of type \<open>string | undefined\<close> inside a template literal.\<close>

definition toStr :: "string option \<Rightarrow> string" where
  "toStr v = (case v of None \<Rightarrow> ''undefined'' | Some s \<Rightarrow> s)"

text \<open>Truthiness of a \<open>string | undefined\<close>, and \<open>v || d\<close> for such a \<open>v\<close>.\<close>

definition truthy :: "string option \<Rightarrow> bool" where
  "truthy v = (case v of None \<Rightarrow> False | Some s \<Rightarrow> s \<noteq> [])"

definition orElse :: "string option \<Rightarrow> string \<Rightarrow> string" where
  "orElse v d = (case v of None \<Rightarrow> d | Some s \<Rightarrow> (if s = [] then d else s))"

text \<open>\<open>Array.prototype.join\<close>, \<open>String.prototype.trim\<close> and
  \<open>s.split('/').pop()\<close>.\<close>

fun join :: "string \<Rightarrow> string list \<Rightarrow> string" where
  "join sep [] = []"
| "join sep [x] = x"
| "join sep (x # y # r) = x @ sep @ join sep (y # r)"

definition trim :: "string \<Rightarrow> string" where
  "trim s = rev (dropWhile isSpace (rev (dropWhile isSpace s)))"

definition lastSegment :: "string \<Rightarrow> string" where
  "lastSegment s = rev (takeWhile (\<lambda>c. c \<noteq> CHR ''/'') (rev s))"

subsection \<open>Enrichment facts and options\<close>

record WikidataService =
  qid :: string
  label :: string
  description :: "string option"
  industry :: "string option"
  industryQID :: "string option"
  provider :: "string option"
  providerQID :: "string option"
  inception :: "string option"
  image :: "string option"
  wikipedia :: "string option"
  naicsCode :: "string option"
  unspscCode :: "string option"

record ServiceMDXOptions =
  industry :: NAICSIndustry
  classification :: NAICSClassification
  wikidata :: "WikidataService option"
  digital :: "rat option"
  examples :: "bool option"

subsection \<open>\<open>ServiceMDXGenerator\<close>\<close>

text \<open>
  The class has no fields: each method is a function of its arguments. How the engine
  prints a number inside a template literal is the parameter \<open>numToString\<close>. The
  lookup \<open>sectorTypes[sector]\<close> is a lookup among the ten keys of the literal.
\<close>

definition sectorTypes :: "(string \<times> string) list" where
  "sectorTypes =
   [(''54'', ''Professional Service''),
    (''62'', ''Healthcare Service''),
    (''61'', ''Educational Service''),
    (''52'', ''Financial Service''),
    (''72'', ''Hospitality Service''),
    (''81'', ''Personal Service''),
    (''51'', ''Information Service''),
    (''48'', ''Transportation Service''),
    (''49'', ''Transportation Service''),
    (''56'', ''Support Service'')]"

text \<open>\<open>getServiceType\<close> reads only the \<open>sector\<close> of the classification it is given,
  and one of its callers passes an object with nothing else: its argument here is that
  sector.\<close>

definition getServiceType :: "string \<Rightarrow> string" where
  "getServiceType sector' =
     (case map_of sectorTypes sector' of None \<Rightarrow> ''Professional Service'' | Some t \<Rightarrow> t)"

text \<open>
  Each section is a list of lines joined by newlines: the array \<open>lines\<close> where the
  source builds one, the lines of the template literal where it writes one. First the
  array \<open>lines\<close> of \<open>generateFrontmatter\<close>, for a title \<open>t\<close> that is present.
\<close>

definition frontmatterLines ::
  "(rat \<Rightarrow> string) \<Rightarrow> string \<Rightarrow> NAICSIndustry \<Rightarrow> NAICSClassification
     \<Rightarrow> WikidataService option \<Rightarrow> rat \<Rightarrow> string list" where
  \<open>frontmatterLines numToString t industry' classification' wikidata' digital' =
     [''---'',
      ''$id: https://services.org.ai/'' @ toKebabCase t,
      ''$context: https://schema.org.ai'',
      ''$type: Service'',
      ''name: '' @ t,
      ''description: '' @ orElse (NAICSIndustry.description industry') ''Service type'']
     @ [''naics:'',
        ''  code: "'' @ toStr (NAICSClassification.code classification') @ ''"'',
        ''  title: "'' @ toStr (NAICSClassification.title classification') @ ''"'',
        ''  sector: "'' @ NAICSClassification.sector classification' @ ''"'',
        ''  sectorName: "'' @ NAICSClassification.sectorName classification' @ ''"'']
     @ (if truthy (NAICSClassification.subsector classification')
        then [''  subsector: "'' @ toStr (NAICSClassification.subsector classification') @ ''"'']
        else [])
     @ (if truthy (NAICSClassification.industryGroup classification')
        then [''  industryGroup: "'' @ toStr (NAICSClassification.industryGroup classification') @ ''"'']
        else [])
     @ (if truthy (NAICSClassification.industryGroupName classification')
        then [''  industryGroupName: "'' @ toStr (NAICSClassification.industryGroupName classification') @ ''"'']
        else [])
     @ (case wikidata' of
          None \<Rightarrow> []
        | Some w \<Rightarrow>
            [''wikidata: https://www.wikidata.org/wiki/'' @ WikidataService.qid w]
            @ (if truthy (WikidataService.wikipedia w)
               then [''wikipedia: '' @ toStr (WikidataService.wikipedia w)]
               else []))
     @ [''digital: '' @ numToString digital',
        ''category: Service'',
        ''serviceType: '' @ getServiceType (NAICSClassification.sector classification'),
        ''---'']\<close>

text \<open>\<open>this.toKebabCase(industry.title)\<close> calls \<open>replace\<close> on the title: a
  title that is \<open>undefined\<close> raises a \<open>TypeError\<close> there.\<close>

definition generateFrontmatter ::
  "(rat \<Rightarrow> string) \<Rightarrow> NAICSIndustry \<Rightarrow> NAICSClassification
     \<Rightarrow> WikidataService option \<Rightarrow> rat \<Rightarrow> js_error + string" where
  "generateFrontmatter numToString industry' classification' wikidata' digital' =
     (case NAICSIndustry.title industry' of
        None \<Rightarrow> Inl TypeError
      | Some t \<Rightarrow>
          Inr (join ''\<newline>'' (frontmatterLines numToString t industry' classification' wikidata' digital')))"

definition generateBreadcrumb :: "NAICSClassification \<Rightarrow> string" where
  "generateBreadcrumb classification' =
     ''[Thing](https://schema.org.ai/Thing) > [Service](Service.mdx) > ''
     @ NAICSClassification.sectorName classification'"

definition propertiesLines :: "string list" where
  "propertiesLines =
     [
      ''## Properties'',
      '''',
      ''| Property | Type | Description | Inherited From |'',
      ''|----------|------|-------------|----------------|'',
      ''| name | Text | The name of the service | Thing |'',
      ''| description | Text | A description of the service | Thing |'',
      ''| provider | Organization '' @ backslash @ ''| Person | The service provider | Service |'',
      ''| serviceType | Text | The type of service | Service |'',
      ''| areaServed | Place '' @ backslash @ ''| GeoShape | Geographic area served | Service |'',
      ''| category | Text '' @ backslash @ ''| Thing | Category of the service | Service |'',
      ''| hoursAvailable | OpeningHoursSpecification | Service hours | Service |'',
      ''| offers | Offer | Service offer details | Service |'',
      ''| availableChannel | ServiceChannel | How to access the service | Service |'']"

definition generatePropertiesSection :: string where
  "generatePropertiesSection = join ''\<newline>'' propertiesLines"

definition classificationLines ::
  "NAICSClassification \<Rightarrow> WikidataService option \<Rightarrow> string list" where
  "classificationLines classification' wikidata' =
     (let naicsPath =
            NAICSClassification.sectorName classification'
            @ (if truthy (NAICSClassification.industryGroupName classification')
               then '' > '' @ toStr (NAICSClassification.industryGroupName classification')
               else [])
            @ '' > '' @ toStr (NAICSClassification.title classification')
      in [''## Classification'', [],
          ''- **NAICS**: '' @ toStr (NAICSClassification.code classification')
            @ '' ('' @ naicsPath @ '')'']
         @ (case wikidata' of
              None \<Rightarrow> []
            | Some w \<Rightarrow>
                [''- **Wikidata**: ['' @ WikidataService.qid w
                   @ ''](https://www.wikidata.org/wiki/'' @ WikidataService.qid w @ '')'']
                @ (if truthy (WikidataService.wikipedia w)
                   then [''- **Wikipedia**: ['' @ lastSegment (toStr (WikidataService.wikipedia w))
                           @ '']('' @ toStr (WikidataService.wikipedia w) @ '')'']
                   else [])))"

definition generateClassificationSection ::
  "NAICSClassification \<Rightarrow> WikidataService option \<Rightarrow> string" where
  "generateClassificationSection classification' wikidata' =
     join ''\<newline>'' (classificationLines classification' wikidata')"

text \<open>The template of \<open>generateExamplesSection\<close>, for a title \<open>t\<close> that is
  present; \<open>toCamelCase\<close> of a title that is \<open>undefined\<close> raises a
  \<open>TypeError\<close>.\<close>

definition examplesLines :: "string \<Rightarrow> NAICSIndustry \<Rightarrow> string list" where
  "examplesLines t industry' =
     (let varName = toCamelCase t; typeName = toPascalCase t in
     [
      ''## Examples'',
      '''',
      ''```typescript'',
      ''import { $ } from '' @ apostrophe @ ''@org.ai/services'' @ apostrophe,
      '''',
      ''// Create a basic service'',
      ''const '' @ varName @ '' = $.'' @ typeName @ ''.create({'',
      ''  name: '' @ apostrophe @ ''Example '' @ t @ apostrophe @ '','',
      ''  description: '' @ apostrophe @ orElse (NAICSIndustry.description industry') ''Service description'' @ apostrophe @ '','',
      ''  provider: '' @ apostrophe @ ''Example Company'' @ apostrophe @ '','',
      ''  serviceType: '' @ apostrophe @ getServiceType (NAICSSector.code (NAICSIndustry.sector industry')) @ apostrophe @ '','',
      ''  areaServed: '' @ apostrophe @ ''United States'' @ apostrophe,
      ''})'',
      '''',
      ''// With additional properties'',
      ''const detailed'' @ typeName @ '' = $.'' @ typeName @ ''.create({'',
      ''  name: '' @ apostrophe @ ''Premium '' @ t @ apostrophe @ '','',
      ''  description: '' @ apostrophe @ ''Premium service with enhanced features'' @ apostrophe @ '','',
      ''  provider: {'',
      ''    name: '' @ apostrophe @ ''Premium Service Provider'' @ apostrophe @ '','',
      ''    type: '' @ apostrophe @ ''Organization'' @ apostrophe,
      ''  },'',
      ''  serviceType: '' @ apostrophe @ getServiceType (NAICSSector.code (NAICSIndustry.sector industry')) @ apostrophe @ '','',
      ''  areaServed: {'',
      ''    name: '' @ apostrophe @ ''San Francisco Bay Area'' @ apostrophe @ '','',
      ''    type: '' @ apostrophe @ ''Place'' @ apostrophe,
      ''  },'',
      ''  hoursAvailable: {'',
      ''    dayOfWeek: ['' @ apostrophe @ ''Monday'' @ apostrophe @ '', '' @ apostrophe @ ''Tuesday'' @ apostrophe @ '', '' @ apostrophe @ ''Wednesday'' @ apostrophe @ '', '' @ apostrophe @ ''Thursday'' @ apostrophe @ '', '' @ apostrophe @ ''Friday'' @ apostrophe @ ''],'',
      ''    opens: '' @ apostrophe @ ''09:00'' @ apostrophe @ '','',
      ''    closes: '' @ apostrophe @ ''17:00'' @ apostrophe,
      ''  }'',
      ''})'',
      '''',
      ''// Query services'',
      ''const allServices = $.'' @ typeName @ ''.find()'',
      ''```''])"

definition generateExamplesSection :: "NAICSIndustry \<Rightarrow> js_error + string" where
  "generateExamplesSection industry' =
     (case NAICSIndustry.title industry' of
        None \<Rightarrow> Inl TypeError
      | Some t \<Rightarrow> Inr (join ''\<newline>'' (examplesLines t industry')))"

definition resourcesLines ::
  "WikidataService option \<Rightarrow> NAICSClassification option \<Rightarrow> string list" where
  "resourcesLines wikidata' classification' =
     [''## Resources'', [], ''- [Schema.org Service](https://schema.org/Service)'']
     @ (case classification' of
          None \<Rightarrow> []
        | Some c \<Rightarrow>
            [''- [NAICS '' @ toStr (NAICSClassification.code c)
               @ ''](https://www.census.gov/naics/?input='' @ toStr (NAICSClassification.code c) @ '')''])
     @ (case wikidata' of
          None \<Rightarrow> []
        | Some w \<Rightarrow>
            [''- [Wikidata: '' @ WikidataService.label w @ '' ('' @ WikidataService.qid w
               @ '')](https://www.wikidata.org/wiki/'' @ WikidataService.qid w @ '')'']
            @ (if truthy (WikidataService.wikipedia w)
               then [''- [Wikipedia: '' @ lastSegment (toStr (WikidataService.wikipedia w))
                       @ '']('' @ toStr (WikidataService.wikipedia w) @ '')'']
               else []))"

definition generateResourcesSection ::
  "WikidataService option \<Rightarrow> NAICSClassification option \<Rightarrow> string" where
  "generateResourcesSection wikidata' classification' =
     join ''\<newline>'' (resourcesLines wikidata' classification')"

text \<open>
  \<open>generate\<close>. The options are destructured with the defaults \<open>digital = 0.7\<close> and
  \<open>examples = true\<close>; the parts are computed in the order of the source, a
  \<open>TypeError\<close> of a part ends the call, and the template literal is trimmed.
\<close>

definition generate :: "(rat \<Rightarrow> string) \<Rightarrow> 'a ServiceMDXOptions_scheme \<Rightarrow> js_error + string" where
  "generate numToString options =
     (let industry = ServiceMDXOptions.industry options;
          classification = ServiceMDXOptions.classification options;
          wikidata = ServiceMDXOptions.wikidata options;
          digital = (case ServiceMDXOptions.digital options of None \<Rightarrow> 7 / 10 | Some d \<Rightarrow> d);
          examples = (case ServiceMDXOptions.examples options of None \<Rightarrow> True | Some b \<Rightarrow> b)
      in case generateFrontmatter numToString industry classification wikidata digital of
           Inl e \<Rightarrow> Inl e
         | Inr frontmatter \<Rightarrow>
             (let breadcrumb = generateBreadcrumb classification;
                  title = ''# '' @ toStr (NAICSIndustry.title industry);
                  description =
                    orElse (NAICSIndustry.description industry)
                      (orElse (Option.bind wikidata WikidataService.description)
                         (toStr (NAICSIndustry.title industry) @ '' service.''));
                  properties = generatePropertiesSection;
                  classificationSection = generateClassificationSection classification wikidata
              in case (if examples then generateExamplesSection industry else Inr []) of
                   Inl e \<Rightarrow> Inl e
                 | Inr examplesSection \<Rightarrow>
                     (let resources = generateResourcesSection wikidata (Some classification)
                      in Inr (trim
                           (frontmatter @ ''\<newline>\<newline>'' @ breadcrumb @ ''\<newline>\<newline>''
                            @ title @ ''\<newline>\<newline>'' @ description @ ''\<newline>\<newline>''
                            @ properties @ ''\<newline>\<newline>'' @ classificationSection
                            @ ''\<newline>\<newline>'' @ examplesSection @ ''\<newline>\<newline>''
                            @ resources @ ''\<newline>'')))))"

section \<open>Digital-delivery score (generate.ts)\<close>

text \<open>
  \<open>calculateDigitalScore\<close>. \<open>title.includes(k)\<close> holds when \<open>k\<close> occurs in the
  title as a contiguous piece. The scores are the decimal literals of the source. The
  title is read with \<open>industry.title.toLowerCase()\<close>: a missing title raises a
  \<open>TypeError\<close>.
\<close>

definition str_includes :: "string \<Rightarrow> string \<Rightarrow> bool" where
  "str_includes s k = sublist k s"

definition calculateDigitalScore :: "NAICSIndustry \<Rightarrow> js_error + rat" where
  "calculateDigitalScore industry' =
     (let sectorCode = NAICSSector.code (NAICSIndustry.sector industry') in
      case NAICSIndustry.title industry' of
        None \<Rightarrow> Inl TypeError
      | Some t \<Rightarrow>
          (let title = toLowerCase t in
           if str_includes title ''computer'' \<or>
              str_includes title ''software'' \<or>
              str_includes title ''web'' \<or>
              str_includes title ''data processing'' \<or>
              str_includes title ''internet''
           then Inr 1
           else if sectorCode = ''51'' then Inr (9 / 10)
           else if sectorCode = ''54'' then Inr (7 / 10)
           else if sectorCode = ''52'' then Inr (8 / 10)
           else if sectorCode = ''62'' then Inr (5 / 10)
           else if sectorCode = ''61'' then Inr (6 / 10)
           else if sectorCode = ''72'' then Inr (3 / 10)
           else if sectorCode = ''81'' then Inr (3 / 10)
           else if sectorCode = ''48'' \<or> sectorCode = ''49'' then Inr (5 / 10)
           else Inr (5 / 10)))"

text \<open>
  The rule as the specification words it: the keywords, and the table of sector
  defaults that applies when no keyword matches.
\<close>

definition digitalKeywords :: "string list" where
  "digitalKeywords = [''computer'', ''software'', ''web'', ''data processing'', ''internet'']"

definition titleHasKeyword :: "string \<Rightarrow> bool" where
  "titleHasKeyword t = list_ex (\<lambda>k. sublist k (toLowerCase t)) digitalKeywords"

definition sectorDefaults :: "(string \<times> rat) list" where
  "sectorDefaults =
   [(''51'', 9 / 10), (''54'', 7 / 10), (''52'', 8 / 10), (''62'', 5 / 10), (''61'', 6 / 10),
    (''72'', 3 / 10), (''81'', 3 / 10), (''48'', 5 / 10), (''49'', 5 / 10)]"

section \<open>Knowledge-base client (wikidata-client.ts)\<close>

text \<open>
  The parsed response of a query, as far as \<open>parseServiceResults\<close> reads it. A bound
  variable of a binding is an object of which only \<open>value\<close> is read (the field
  \<open>val\<close>); every level may be missing.
\<close>

record rdf_term =
  val :: "string option"

record sparql_binding =
  service :: "rdf_term option"
  serviceLabel :: "rdf_term option"
  serviceDescription :: "rdf_term option"
  industry :: "rdf_term option"
  industryLabel :: "rdf_term option"
  provider :: "rdf_term option"
  providerLabel :: "rdf_term option"
  inception :: "rdf_term option"
  image :: "rdf_term option"
  wikipedia :: "rdf_term option"

record sparql_results =
  bindings :: "sparql_binding list option"

record sparql_response =
  results :: "sparql_results option"

text \<open>\<open>x?.value\<close>.\<close>

definition optValue :: "rdf_term option \<Rightarrow> string option" where
  "optValue x = (case x of None \<Rightarrow> None | Some tm \<Rightarrow> rdf_term.val tm)"

text \<open>
  \<open>extractQID\<close>: \<open>uri.match(/Q\d+$/)\<close> finds the first \<open>Q\<close> that is followed by
  digits only, at least one, up to the end of the string; the result is that match, or
  the empty string. On \<open>undefined\<close> the call of \<open>match\<close> raises a \<open>TypeError\<close>.
\<close>

fun matchQID :: "string \<Rightarrow> string" where
  "matchQID [] = []"
| "matchQID (c # cs) =
     (if c = CHR ''Q'' \<and> cs \<noteq> [] \<and> list_all isDigit cs then c # cs else matchQID cs)"

definition extractQID :: "string option \<Rightarrow> js_error + string" where
  "extractQID uri = (case uri of None \<Rightarrow> Inl TypeError | Some u \<Rightarrow> Inr (matchQID u))"

text \<open>\<open>binding.industry ? this.extractQID(binding.industry.value) : undefined\<close>.\<close>

definition extractQIDIfPresent :: "rdf_term option \<Rightarrow> js_error + string option" where
  "extractQIDIfPresent x =
     (case x of
        None \<Rightarrow> Inr None
      | Some tm \<Rightarrow> (case extractQID (rdf_term.val tm) of Inl e \<Rightarrow> Inl e | Inr q \<Rightarrow> Inr (Some q)))"

text \<open>The callback of \<open>map\<close>: the fields of the object literal are evaluated in their
  order, and an error of one ends the callback.\<close>

definition parseBinding :: "sparql_binding \<Rightarrow> js_error + WikidataService" where
  "parseBinding binding =
     (case extractQID (optValue (sparql_binding.service binding)) of
        Inl e \<Rightarrow> Inl e
      | Inr q \<Rightarrow>
          (case extractQIDIfPresent (sparql_binding.industry binding) of
             Inl e \<Rightarrow> Inl e
           | Inr iq \<Rightarrow>
               (case extractQIDIfPresent (sparql_binding.provider binding) of
                  Inl e \<Rightarrow> Inl e
                | Inr pq \<Rightarrow>
                    Inr \<lparr> WikidataService.qid = q,
                          WikidataService.label = orElse (optValue (sparql_binding.serviceLabel binding)) [],
                          WikidataService.description = optValue (sparql_binding.serviceDescription binding),
                          WikidataService.industry = optValue (sparql_binding.industryLabel binding),
                          WikidataService.industryQID = iq,
                          WikidataService.provider = optValue (sparql_binding.providerLabel binding),
                          WikidataService.providerQID = pq,
                          WikidataService.inception = optValue (sparql_binding.inception binding),
                          WikidataService.image = optValue (sparql_binding.image binding),
                          WikidataService.wikipedia = optValue (sparql_binding.wikipedia binding),
                          WikidataService.naicsCode = None,
                          WikidataService.unspscCode = None \<rparr>)))"

text \<open>\<open>Array.prototype.map\<close> with a callback that may raise: the first error ends the
  call.\<close>

fun mapRaising :: "('a \<Rightarrow> js_error + 'b) \<Rightarrow> 'a list \<Rightarrow> js_error + 'b list" where
  "mapRaising f [] = Inr []"
| "mapRaising f (x # xs) =
     (case f x of
        Inl e \<Rightarrow> Inl e
      | Inr y \<Rightarrow> (case mapRaising f xs of Inl e \<Rightarrow> Inl e | Inr ys \<Rightarrow> Inr (y # ys)))"

definition parseServiceResults :: "sparql_response \<Rightarrow> js_error + WikidataService list" where
  "parseServiceResults response =
     (case sparql_response.results response of
        None \<Rightarrow> Inr []
      | Some r \<Rightarrow>
          (case sparql_results.bindings r of
             None \<Rightarrow> Inr []
           | Some bs \<Rightarrow> mapRaising parseBinding bs))"

text \<open>A binding with no variable bound, and the response that holds just this binding.\<close>

definition unbound_binding :: sparql_binding where
  "unbound_binding = \<lparr> sparql_binding.service = None, sparql_binding.serviceLabel = None,
     sparql_binding.serviceDescription = None, sparql_binding.industry = None,
     sparql_binding.industryLabel = None, sparql_binding.provider = None,
     sparql_binding.providerLabel = None, sparql_binding.inception = None,
     sparql_binding.image = None, sparql_binding.wikipedia = None \<rparr>"

definition unbound_response :: sparql_response where
  "unbound_response =
     \<lparr> sparql_response.results = Some \<lparr> sparql_results.bindings = Some [unbound_binding] \<rparr> \<rparr>"

section \<open>Statement vocabulary and sample inputs\<close>

subsection \<open>The document, line by line\<close>

text \<open>
  The value a rendered document has for its description paragraph: the local
  \<open>description\<close> of \<open>generate\<close>.
\<close>

definition descriptionParagraph :: "string \<Rightarrow> 'a ServiceMDXOptions_scheme \<Rightarrow> string" where
  "descriptionParagraph t options =
     orElse (NAICSIndustry.description (ServiceMDXOptions.industry options))
       (orElse (Option.bind (ServiceMDXOptions.wikidata options) WikidataService.description)
          (t @ '' service.''))"

text \<open>
  The template literal of \<open>generate\<close> read line by line, for a title \<open>t\<close> that is
  present: the parts in their order, a blank line between two parts; \<open>slot\<close> stands for
  the lines of the examples part, and the empty string is the one empty line \<open>[[]]\<close>.
  \<open>splitLines\<close> is \<open>s.split('\n')\<close>.
\<close>

definition documentLines ::
  "(rat \<Rightarrow> string) \<Rightarrow> string \<Rightarrow> 'a ServiceMDXOptions_scheme \<Rightarrow> string list \<Rightarrow> string list" where
  "documentLines numToString t options slot =
     frontmatterLines numToString t (ServiceMDXOptions.industry options)
       (ServiceMDXOptions.classification options) (ServiceMDXOptions.wikidata options)
       (case ServiceMDXOptions.digital options of None \<Rightarrow> 7 / 10 | Some d \<Rightarrow> d)
     @ [[], generateBreadcrumb (ServiceMDXOptions.classification options),
        [], ''# '' @ t,
        [], descriptionParagraph t options,
        []]
     @ propertiesLines
     @ [[]]
     @ classificationLines (ServiceMDXOptions.classification options) (ServiceMDXOptions.wikidata options)
     @ [[]]
     @ slot
     @ [[]]
     @ resourcesLines (ServiceMDXOptions.wikidata options) (Some (ServiceMDXOptions.classification options))"

fun splitLines :: "string \<Rightarrow> string list" where
  "splitLines [] = [[]]"
| "splitLines (c # cs) =
     (if c = CHR ''\<newline>'' then [] # splitLines cs
      else (case splitLines cs of l # ls \<Rightarrow> (c # l) # ls | [] \<Rightarrow> [[c]]))"


subsection \<open>Sample inputs\<close>

text \<open>The school record of the rendering scenario (an empty description, no facts, no
  examples), the lawyers' entry of the sample table with facts from the knowledge base, and
  the school record with its code left out and with its title left out.\<close>

definition school_industry :: NAICSIndustry where
  "school_industry = \<lparr> NAICSIndustry.code = Some ''611110'',
     NAICSIndustry.title = Some ''Elementary and Secondary Schools'',
     NAICSIndustry.description = Some [], NAICSIndustry.sector = sector61 \<rparr>"

definition school_classification :: NAICSClassification where
  "school_classification = \<lparr> NAICSClassification.code = Some ''611110'',
     NAICSClassification.title = Some ''Elementary and Secondary Schools'',
     NAICSClassification.sector = ''61'',
     NAICSClassification.sectorName = ''Educational Services'',
     NAICSClassification.subsector = Some ''611'',
     NAICSClassification.industryGroup = Some ''6111'',
     NAICSClassification.industryGroupName = Some ''Elementary and Secondary Schools'' \<rparr>"

definition school_options :: ServiceMDXOptions where
  "school_options = \<lparr> ServiceMDXOptions.industry = school_industry,
     ServiceMDXOptions.classification = school_classification,
     ServiceMDXOptions.wikidata = None, ServiceMDXOptions.digital = None,
     ServiceMDXOptions.examples = Some False \<rparr>"

definition lawyer_industry :: NAICSIndustry where
  "lawyer_industry = mkIndustry ''541110'' ''Offices of Lawyers''
     ''Legal advice and representation in civil and criminal legal matters'' sector54"

definition lawyer_classification :: NAICSClassification where
  "lawyer_classification = \<lparr> NAICSClassification.code = Some ''541110'',
     NAICSClassification.title = Some ''Offices of Lawyers'',
     NAICSClassification.sector = ''54'',
     NAICSClassification.sectorName = ''Professional, Scientific, and Technical Services'',
     NAICSClassification.subsector = Some ''541'',
     NAICSClassification.industryGroup = Some ''5411'',
     NAICSClassification.industryGroupName = Some ''Legal Services'' \<rparr>"

definition lawyer_facts :: WikidataService where
  "lawyer_facts = \<lparr> WikidataService.qid = ''Q40348'', WikidataService.label = ''lawyer'',
     WikidataService.description = Some ''legal professional who helps clients and represents them in a court of law'',
     WikidataService.industry = None, WikidataService.industryQID = None,
     WikidataService.provider = None, WikidataService.providerQID = None,
     WikidataService.inception = None, WikidataService.image = None,
     WikidataService.wikipedia = Some ''https://en.wikipedia.org/wiki/Lawyer'',
     WikidataService.naicsCode = None, WikidataService.unspscCode = None \<rparr>"

definition lawyer_options :: ServiceMDXOptions where
  "lawyer_options = \<lparr> ServiceMDXOptions.industry = lawyer_industry,
     ServiceMDXOptions.classification = lawyer_classification,
     ServiceMDXOptions.wikidata = Some lawyer_facts, ServiceMDXOptions.digital = Some (6 / 10),
     ServiceMDXOptions.examples = Some True \<rparr>"



section \<open>Properties\<close>

subsection \<open>Characters and replacement\<close>

lemma toLowerChar_not_upper: "\<not> isUpper (toLowerChar c)"
  by (auto simp: isUpper_def toLowerChar_def)

lemma toLowerChar_keeps_class:
  "\<not> isSpace c \<Longrightarrow> \<not> isSpace (toLowerChar c)"
  "\<not> isParen c \<Longrightarrow> \<not> isParen (toLowerChar c)"
  by (auto simp: isUpper_def toLowerChar_def isSpace_def isParen_def)

lemma alnum_hyphen_no_space_paren:
  "isAlnum c \<or> c = CHR ''-'' \<Longrightarrow> \<not> isSpace c \<and> \<not> isParen c"
  by (auto simp: isAlnum_def isLower_def isUpper_def isDigit_def isSpace_def isParen_def)

lemma set_replaceRuns: "set (replaceRuns p rep s) \<subseteq> {c \<in> set s. \<not> p c} \<union> set rep"
proof (induction p rep s rule: replaceRuns.induct)
  case (1 p rep)
  show ?case by simp
next
  case (2 p rep c cs)
  show ?case
  proof (cases "p c")
    case True
    have "set (dropWhile p cs) \<subseteq> set cs"
      by (auto dest: set_dropWhileD)
    with 2(1)[OF True] True show ?thesis by auto
  next
    case False
    with 2(2)[OF False] show ?thesis by auto
  qed
qed

subsection \<open>Path slugs\<close>

lemma toKebabCase_chars: "c \<in> set (toKebabCase s) \<Longrightarrow> slugChar c"
proof -
  assume "c \<in> set (toKebabCase s)"
  then obtain d where d: "c = toLowerChar d" "isAlnum d \<or> d = CHR ''-''"
    by (auto simp: toKebabCase_def toLowerCase_def removeAll_class_def)
  from d(2) have "\<not> isSpace d \<and> \<not> isParen d"
    by (rule alnum_hyphen_no_space_paren)
  with d(1) show "slugChar c"
    by (simp add: slugChar_def toLowerChar_not_upper toLowerChar_keeps_class)
qed

lemma kebabName_chars: "c \<in> set (kebabName s) \<Longrightarrow> slugChar c"
proof -
  assume c: "c \<in> set (kebabName s)"
  then have np: "\<not> isParen c"
    by (simp add: kebabName_def removeAll_class_def)
  from c have "c \<in> set (replaceRuns isSpace ''-'' (toLowerCase s))"
    by (simp add: kebabName_def removeAll_class_def)
  with set_replaceRuns[of isSpace "''-''" "toLowerCase s"]
  have "(c \<in> set (toLowerCase s) \<and> \<not> isSpace c) \<or> c = CHR ''-''"
    by auto
  then have "\<not> isSpace c \<and> \<not> isUpper c"
  proof
    assume "c \<in> set (toLowerCase s) \<and> \<not> isSpace c"
    then show ?thesis
      by (auto simp: toLowerCase_def toLowerChar_not_upper)
  next
    assume "c = CHR ''-''"
    then show ?thesis
      by (simp add: isSpace_def isUpper_def)
  qed
  with np show "slugChar c"
    by (simp add: slugChar_def)
qed

text \<open>
  Claim C6. The path slug of a title contains no whitespace character, no parenthesis
  and no upper-case letter. Both derivations of the slug satisfy it: \<open>toKebabCase\<close> of
  the generator class and \<open>kebabName\<close> of the sample scripts. The input need not even
  be non-empty.
\<close>

theorem toPathSlug_clean:
  "list_all slugChar (toKebabCase s) \<and> list_all slugChar (kebabName s)"
  by (simp add: list_all_iff toKebabCase_chars kebabName_chars)

theorem toPathSlug_clean_witness:
  "toKebabCase ''Offices of Physicians (except Mental Health Specialists)''
     = ''offices-of-physicians-except-mental-health-specialists-''
   \<and> kebabName ''Offices of Physicians (except Mental Health Specialists)''
     = ''offices-of-physicians-except-mental-health-specialists''
   \<and> list_all slugChar (toKebabCase ''Offices of Physicians (except Mental Health Specialists)'')
   \<and> list_all slugChar (kebabName ''Offices of Physicians (except Mental Health Specialists)'')"
proof -
  have "toKebabCase ''Offices of Physicians (except Mental Health Specialists)''
     = ''offices-of-physicians-except-mental-health-specialists-''"
    by code_simp
  moreover have "kebabName ''Offices of Physicians (except Mental Health Specialists)''
     = ''offices-of-physicians-except-mental-health-specialists''"
    by code_simp
  ultimately show ?thesis
    using toPathSlug_clean[of "''Offices of Physicians (except Mental Health Specialists)''"]
    by simp
qed

subsection \<open>Identifiers\<close>

lemma toLower_toUpper_lower: "isLower c \<Longrightarrow> toLowerChar (toUpperChar c) = c"
proof -
  assume l: "isLower c"
  define n where "n = (of_char c :: nat)"
  from l have n: "97 \<le> n" "n \<le> 122"
    by (simp_all add: isLower_def n_def)
  then have "(n - 32) mod 256 = n - 32"
    by simp
  then have code: "(of_char (char_of (n - 32)) :: nat) = n - 32"
    by simp
  from n have "65 \<le> n - 32 \<and> n - 32 \<le> 90" by arith
  with code have u: "isUpper (char_of (n - 32))"
    by (simp add: isUpper_def)
  from n have rt: "n - 32 + 32 = n"
    by arith
  have "char_of n = c" by (simp add: n_def)
  with l u code rt show ?thesis
    by (simp add: toLowerChar_def toUpperChar_def n_def [symmetric])
qed

lemma toLowerChar_id: "\<not> isUpper c \<Longrightarrow> toLowerChar c = c"
  by (simp add: toLowerChar_def)

lemma lower_not_upper: "isLower c \<Longrightarrow> \<not> isUpper c"
  by (simp add: isLower_def isUpper_def)

text \<open>In the generator class the variable name is the identifier with its first
  character put in lower case, for every title.\<close>

lemma toCamelCase_lowerFirst: "toCamelCase s = lowerFirst (toPascalCase s)"
proof (cases "replaceBoundaries s")
  case Nil
  then show ?thesis
    by (simp add: toCamelCase_def toPascalCase_def lowerFirst_def lowerFirstUpper_def
        upperFirstLower_def)
next
  case (Cons c cs)
  show ?thesis
  proof (cases "isLower c")
    case True
    with Cons show ?thesis
      by (simp add: toCamelCase_def toPascalCase_def lowerFirst_def lowerFirstUpper_def
          upperFirstLower_def toLower_toUpper_lower lower_not_upper)
  next
    case False
    with Cons show ?thesis
      by (simp add: toCamelCase_def toPascalCase_def lowerFirst_def lowerFirstUpper_def
          upperFirstLower_def toLowerChar_id)
  qed
qed

lemma generator_names_of_restaurants:
  "toPascalCase ''Full-Service Restaurants'' = ''FullServiceRestaurants''
   \<and> toCamelCase ''Full-Service Restaurants'' = ''fullServiceRestaurants''"
  by code_simp

lemma camelName_lowerFirst: "camelName s = lowerFirst (pascalName s)"
  by (simp add: camelName_def)

text \<open>
  Claim C7. The identifier of \<open>Full-Service Restaurants\<close> is to be
  \<open>FullServiceRestaurants\<close> and its variable name \<open>fullServiceRestaurants\<close>. The
  generator class derives exactly these (\<open>generator_names_of_restaurants\<close>), and in
  both derivations the variable name is the identifier with its first character in lower
  case (\<open>toCamelCase_lowerFirst\<close>, \<open>camelName_lowerFirst\<close>). The sample scripts,
  whose sample data holds this very title, only delete whitespace and parentheses: the
  hyphen stays, and the names they put into the generated example code are not
  identifiers.
\<close>

theorem sample_script_names_of_restaurants:
  "pascalName ''Full-Service Restaurants'' = ''Full-ServiceRestaurants''
   \<and> camelName ''Full-Service Restaurants'' = ''full-ServiceRestaurants''
   \<and> pascalName ''Full-Service Restaurants'' \<noteq> ''FullServiceRestaurants''
   \<and> camelName ''Full-Service Restaurants'' \<noteq> ''fullServiceRestaurants''"
  by code_simp

subsection \<open>Classification registry\<close>

text \<open>
  Claim C1. For a code that is a key of the table, \<open>getClassification\<close> returns a
  record whose sector is the first two characters of the code, whose subsector is the
  first three (unset for a code shorter than three) and whose industry group is the first
  four (unset for a code shorter than four). On the sample table the code \<open>541511\<close>
  gives sector \<open>54\<close>, subsector \<open>541\<close> and industry group \<open>5415\<close>.
\<close>

theorem getClassification_prefixes:
  "(c \<in> dom data \<longrightarrow>
      (\<exists>r. getClassification data c = Some r
         \<and> NAICSClassification.sector r = take 2 c
         \<and> NAICSClassification.subsector r = (if length c < 3 then None else Some (take 3 c))
         \<and> NAICSClassification.industryGroup r = (if length c < 4 then None else Some (take 4 c))))
   \<and> (\<exists>r. getClassification NAICS_DATA ''541511'' = Some r
         \<and> NAICSClassification.code r = Some ''541511''
         \<and> NAICSClassification.sector r = ''54''
         \<and> NAICSClassification.subsector r = Some ''541''
         \<and> NAICSClassification.industryGroup r = Some ''5415'')"
proof
  show "c \<in> dom data \<longrightarrow>
      (\<exists>r. getClassification data c = Some r
         \<and> NAICSClassification.sector r = take 2 c
         \<and> NAICSClassification.subsector r = (if length c < 3 then None else Some (take 3 c))
         \<and> NAICSClassification.industryGroup r = (if length c < 4 then None else Some (take 4 c)))"
    by (auto simp: getClassification_def getIndustry_def Let_def)
next
  have "NAICS_DATA ''541511'' = Some (mkIndustry ''541511'' ''Custom Computer Programming Services''
       ''Writing, modifying, testing, and supporting software to meet the needs of a particular customer'' sector54)"
    by (simp add: NAICS_DATA_def NAICS_DATA_entries_def)
  then show "\<exists>r. getClassification NAICS_DATA ''541511'' = Some r
         \<and> NAICSClassification.code r = Some ''541511''
         \<and> NAICSClassification.sector r = ''54''
         \<and> NAICSClassification.subsector r = Some ''541''
         \<and> NAICSClassification.industryGroup r = Some ''5415''"
    by (simp add: getClassification_def getIndustry_def Let_def mkIndustry_def)
qed

theorem getClassification_prefixes_witness:
  "''6111'' \<in> dom [''6111'' \<mapsto> mkIndustry ''6111'' ''Elementary and Secondary Schools'' [] sector61]
   \<and> (\<exists>r. getClassification [''6111'' \<mapsto> mkIndustry ''6111'' ''Elementary and Secondary Schools'' [] sector61] ''6111'' = Some r
         \<and> NAICSClassification.sector r = ''61''
         \<and> NAICSClassification.subsector r = Some ''611''
         \<and> NAICSClassification.industryGroup r = Some ''6111'')"
  using getClassification_prefixes
    [of "''6111''" "[''6111'' \<mapsto> mkIndustry ''6111'' ''Elementary and Secondary Schools'' [] sector61]"]
  by simp

subsection \<open>The rendered document\<close>

lemma join_Cons: "join sep (x # xs) = x @ concat (map (\<lambda>y. sep @ y) xs)"
  by (induction xs arbitrary: x) auto

lemma join_append:
  "xs \<noteq> [] \<Longrightarrow> ys \<noteq> [] \<Longrightarrow> join sep (xs @ ys) = join sep xs @ sep @ join sep ys"
  by (cases xs; cases ys) (auto simp: join_Cons)

lemma trim_framed:
  assumes "s \<noteq> []" "\<not> isSpace (hd s)" "\<not> isSpace (last s)"
  shows "trim (s @ ''\<newline>'') = s"
proof -
  from assms obtain c cs where s: "s = c # cs" by (cases s) auto
  with assms have d1: "dropWhile isSpace (s @ ''\<newline>'') = s @ ''\<newline>''"
    by simp
  have nl: "isSpace (CHR ''\<newline>'')" by (simp add: isSpace_def)
  from assms have "rev s \<noteq> []" "\<not> isSpace (hd (rev s))"
    by (simp_all add: hd_rev)
  then have "dropWhile isSpace (rev s) = rev s"
    by (cases "rev s") auto
  with nl have "dropWhile isSpace (rev (s @ ''\<newline>'')) = rev s"
    by simp
  with d1 show ?thesis by (simp add: trim_def)
qed

lemma join_hd: "L \<noteq> [] \<Longrightarrow> hd L \<noteq> [] \<Longrightarrow> join sep L \<noteq> [] \<and> hd (join sep L) = hd (hd L)"
  by (cases L) (auto simp: join_Cons)

lemma join_last: "L \<noteq> [] \<Longrightarrow> last L \<noteq> [] \<Longrightarrow> last (join sep L) = last (last L)"
proof (induction L rule: rev_induct)
  case Nil
  then show ?case by simp
next
  case (snoc l L)
  then show ?case
    by (cases "L = []") (simp_all add: join_append)
qed

lemma frontmatterLines_head:
  "frontmatterLines f t i c w d \<noteq> [] \<and> hd (frontmatterLines f t i c w d) = ''---''"
  by (simp add: frontmatterLines_def)

lemma resourcesLines_last:
  "last (resourcesLines w (Some c)) \<noteq> [] \<and> last (last (resourcesLines w (Some c))) = CHR '')''"
  by (cases w) (simp_all add: resourcesLines_def)

lemma documentLines_frame:
  "documentLines f t opts slot \<noteq> []
   \<and> hd (documentLines f t opts slot) = ''---''
   \<and> last (documentLines f t opts slot) \<noteq> []
   \<and> last (last (documentLines f t opts slot)) = CHR '')''"
proof -
  have r: "resourcesLines (ServiceMDXOptions.wikidata opts)
            (Some (ServiceMDXOptions.classification opts)) \<noteq> []"
    by (simp add: resourcesLines_def)
  show ?thesis
    using resourcesLines_last[of "ServiceMDXOptions.wikidata opts" "ServiceMDXOptions.classification opts"]
      frontmatterLines_head[of f t "ServiceMDXOptions.industry opts"
        "ServiceMDXOptions.classification opts" "ServiceMDXOptions.wikidata opts"
        "case ServiceMDXOptions.digital opts of None \<Rightarrow> 7 / 10 | Some d \<Rightarrow> d"] r
    by (simp add: documentLines_def)
qed

lemma trim_documentLines:
  "trim (join ''\<newline>'' (documentLines f t opts slot) @ ''\<newline>'')
     = join ''\<newline>'' (documentLines f t opts slot)"
proof -
  let ?L = "documentLines f t opts slot"
  have fr: "?L \<noteq> []" "hd ?L = ''---''" "last ?L \<noteq> []" "last (last ?L) = CHR '')''"
    using documentLines_frame[of f t opts slot] by simp_all
  from fr(1,2) have h: "join ''\<newline>'' ?L \<noteq> []" "hd (join ''\<newline>'' ?L) = CHR ''-''"
    using join_hd[of ?L "''\<newline>''"] by simp_all
  from fr(1,3,4) have l: "last (join ''\<newline>'' ?L) = CHR '')''"
    using join_last[of ?L "''\<newline>''"] by simp
  show ?thesis
    using h l by (intro trim_framed) (simp_all add: isSpace_def)
qed


lemma join_Cons_nonempty: "ys \<noteq> [] \<Longrightarrow> join sep (x # ys) = x @ sep @ join sep ys"
  by (cases ys) simp_all

lemma section_lines_nonempty:
  "frontmatterLines f t i c w d \<noteq> []"
  "propertiesLines \<noteq> []"
  "classificationLines c w \<noteq> []"
  "examplesLines t i \<noteq> []"
  "resourcesLines w c' \<noteq> []"
  by (simp_all add: frontmatterLines_def propertiesLines_def classificationLines_def
      examplesLines_def resourcesLines_def Let_def)

lemma join_documentLines:
  assumes "slot \<noteq> []"
  shows "join ''\<newline>'' (documentLines f t opts slot) =
     join ''\<newline>'' (frontmatterLines f t (ServiceMDXOptions.industry opts)
         (ServiceMDXOptions.classification opts) (ServiceMDXOptions.wikidata opts)
         (case ServiceMDXOptions.digital opts of None \<Rightarrow> 7 / 10 | Some d \<Rightarrow> d))
     @ ''\<newline>\<newline>'' @ generateBreadcrumb (ServiceMDXOptions.classification opts)
     @ ''\<newline>\<newline>'' @ ''# '' @ t
     @ ''\<newline>\<newline>'' @ descriptionParagraph t opts
     @ ''\<newline>\<newline>'' @ generatePropertiesSection
     @ ''\<newline>\<newline>''
     @ generateClassificationSection (ServiceMDXOptions.classification opts)
         (ServiceMDXOptions.wikidata opts)
     @ ''\<newline>\<newline>'' @ join ''\<newline>'' slot
     @ ''\<newline>\<newline>''
     @ generateResourcesSection (ServiceMDXOptions.wikidata opts)
         (Some (ServiceMDXOptions.classification opts))"
  using assms
  by (simp add: documentLines_def join_append join_Cons_nonempty section_lines_nonempty
      generatePropertiesSection_def generateClassificationSection_def
      generateResourcesSection_def)

lemma generate_lines:
  assumes t: "NAICSIndustry.title (ServiceMDXOptions.industry opts) = Some t"
  shows "generate f opts =
     Inr (join ''\<newline>'' (documentLines f t opts
            (if ServiceMDXOptions.examples opts = Some False then [[]]
             else examplesLines t (ServiceMDXOptions.industry opts))))"
proof -
  let ?slot = "if ServiceMDXOptions.examples opts = Some False then [[]]
             else examplesLines t (ServiceMDXOptions.industry opts)"
  have slot: "?slot \<noteq> []"
    by (simp add: section_lines_nonempty)
  have "generate f opts = Inr (trim (join ''\<newline>'' (documentLines f t opts ?slot) @ ''\<newline>''))"
    unfolding join_documentLines[OF slot]
    using t
    by (cases "ServiceMDXOptions.examples opts")
       (simp_all add: generate_def generateFrontmatter_def generateExamplesSection_def
          Let_def toStr_def descriptionParagraph_def)
  then show ?thesis
    by (simp only: trim_documentLines)
qed

lemma splitLines_line: "CHR ''\<newline>'' \<notin> set x \<Longrightarrow> splitLines x = [x]"
  by (induction x) auto

lemma splitLines_first:
  "CHR ''\<newline>'' \<notin> set x \<Longrightarrow> splitLines (x @ CHR ''\<newline>'' # s) = x # splitLines s"
  by (induction x) auto

lemma splitLines_join:
  "L \<noteq> [] \<Longrightarrow> list_all (\<lambda>l. CHR ''\<newline>'' \<notin> set l) L \<Longrightarrow> splitLines (join ''\<newline>'' L) = L"
proof (induction L)
  case Nil
  then show ?case by simp
next
  case (Cons x L)
  show ?case
  proof (cases "L = []")
    case True
    with Cons.prems show ?thesis by (simp add: splitLines_line)
  next
    case False
    with Cons have "splitLines (join ''\<newline>'' L) = L" by simp
    with False Cons.prems show ?thesis
      by (simp add: join_Cons_nonempty splitLines_first)
  qed
qed


lemma orElse_if: "orElse v d = (if truthy v then the v else d)"
  by (cases v) (simp_all add: orElse_def truthy_def)

lemma documentLines_examples_update [simp]:
  "documentLines f t (opts\<lparr>ServiceMDXOptions.examples := x\<rparr>) slot = documentLines f t opts slot"
  by (simp add: documentLines_def descriptionParagraph_def)

lemma documentLines_nonempty: "documentLines f t opts slot \<noteq> []"
  by (simp add: documentLines_frame)

lemma generate_splitLines:
  assumes "NAICSIndustry.title (ServiceMDXOptions.industry opts) = Some t"
    and "L = documentLines f t opts
            (if ServiceMDXOptions.examples opts = Some False then [[]]
             else examplesLines t (ServiceMDXOptions.industry opts))"
    and "list_all (\<lambda>l. CHR ''\<newline>'' \<notin> set l) L"
  shows "generate f opts = Inr (join ''\<newline>'' L) \<and> splitLines (join ''\<newline>'' L) = L"
proof -
  have "L \<noteq> []"
    by (simp add: assms(2) documentLines_nonempty)
  then show ?thesis
    using assms by (simp add: generate_lines splitLines_join)
qed

lemma school_title:
  "NAICSIndustry.title (ServiceMDXOptions.industry school_options)
     = Some ''Elementary and Secondary Schools''"
  by (simp add: school_options_def school_industry_def)


text \<open>
  With a title present, the document is the frontmatter, the breadcrumb, the heading and
  then the description paragraph. The paragraph is the record's description when that is
  present and non-empty, and only otherwise the description of the facts; here both are
  present, and the facts' description is no line of the document.
\<close>

theorem facts_description_not_rendered:
  "Option.bind (ServiceMDXOptions.wikidata lawyer_options) WikidataService.description
     = Some ''legal professional who helps clients and represents them in a court of law''
   \<and> (case generate (\<lambda>d. ''0.6'') lawyer_options of
        Inl e \<Rightarrow> False
      | Inr doc \<Rightarrow>
          list_ex (\<lambda>l. l = ''Legal advice and representation in civil and criminal legal matters'')
            (splitLines doc)
          \<and> list_all (\<lambda>l. l \<noteq> ''legal professional who helps clients and represents them in a court of law'')
            (splitLines doc))"
proof -
  define L where "L = documentLines (\<lambda>d. ''0.6'') ''Offices of Lawyers'' lawyer_options
     (examplesLines ''Offices of Lawyers'' (ServiceMDXOptions.industry lawyer_options))"
  have t: "NAICSIndustry.title (ServiceMDXOptions.industry lawyer_options) = Some ''Offices of Lawyers''"
    by (simp add: lawyer_options_def lawyer_industry_def mkIndustry_def)
  have e: "ServiceMDXOptions.examples lawyer_options \<noteq> Some False"
    by (simp add: lawyer_options_def)
  have nf: "list_all (\<lambda>l. CHR ''\<newline>'' \<notin> set l) L"
    unfolding L_def by code_simp
  have g: "generate (\<lambda>d. ''0.6'') lawyer_options = Inr (join ''\<newline>'' L)"
          "splitLines (join ''\<newline>'' L) = L"
    using generate_splitLines[OF t _ nf] e by (simp_all add: L_def)
  have p: "list_ex (\<lambda>l. l = ''Legal advice and representation in civil and criminal legal matters'') L"
    unfolding L_def by code_simp
  have n: "list_all (\<lambda>l. l \<noteq> ''legal professional who helps clients and represents them in a court of law'') L"
    unfolding L_def by code_simp
  have d: "Option.bind (ServiceMDXOptions.wikidata lawyer_options) WikidataService.description
     = Some ''legal professional who helps clients and represents them in a court of law''"
    by (simp add: lawyer_options_def lawyer_facts_def)
  show ?thesis
    using g p n d by simp
qed

text \<open>
  Claim C2, as the renderer has it. The description paragraph of the document is the
  record's description when that is present and non-empty; otherwise the facts'
  description when that is present and non-empty; otherwise the synthesized
  \<open><title> service.\<close>. The \<open>description\<close> entry of the metadata block is the
  record's description when that is present and non-empty and the fixed text
  \<open>Service type\<close> otherwise.
\<close>

theorem description_precedence:
  assumes "NAICSIndustry.title (ServiceMDXOptions.industry opts) = Some t"
  shows "(let i = ServiceMDXOptions.industry opts;
              c = ServiceMDXOptions.classification opts;
              w = ServiceMDXOptions.wikidata opts;
              d = (case ServiceMDXOptions.digital opts of None \<Rightarrow> 7 / 10 | Some d \<Rightarrow> d);
              recordDescription = NAICSIndustry.description i;
              factsDescription = Option.bind w WikidataService.description
          in (\<exists>rest. generate f opts =
                Inr (join ''\<newline>'' (frontmatterLines f t i c w d)
                     @ ''\<newline>\<newline>'' @ generateBreadcrumb c
                     @ ''\<newline>\<newline>'' @ ''# '' @ t
                     @ ''\<newline>\<newline>''
                     @ (if truthy recordDescription then the recordDescription
                        else if truthy factsDescription then the factsDescription
                        else t @ '' service.'')
                     @ ''\<newline>\<newline>'' @ generatePropertiesSection @ rest))
             \<and> frontmatterLines f t i c w d ! 5 =
                 ''description: '' @ (if truthy recordDescription then the recordDescription
                                      else ''Service type''))"
proof -
  let ?slot = "if ServiceMDXOptions.examples opts = Some False then [[]]
               else examplesLines t (ServiceMDXOptions.industry opts)"
  have slot: "?slot \<noteq> []"
    by (simp add: section_lines_nonempty)
  have "generate f opts = Inr (join ''\<newline>'' (documentLines f t opts ?slot))"
    using assms by (rule generate_lines)
  then have doc: "\<exists>rest. generate f opts =
      Inr (join ''\<newline>'' (frontmatterLines f t (ServiceMDXOptions.industry opts)
             (ServiceMDXOptions.classification opts) (ServiceMDXOptions.wikidata opts)
             (case ServiceMDXOptions.digital opts of None \<Rightarrow> 7 / 10 | Some d \<Rightarrow> d))
           @ ''\<newline>\<newline>'' @ generateBreadcrumb (ServiceMDXOptions.classification opts)
           @ ''\<newline>\<newline>'' @ ''# '' @ t
           @ ''\<newline>\<newline>'' @ descriptionParagraph t opts
           @ ''\<newline>\<newline>'' @ generatePropertiesSection @ rest)"
    unfolding join_documentLines[OF slot] by simp
  have line: "frontmatterLines f t (ServiceMDXOptions.industry opts)
             (ServiceMDXOptions.classification opts) (ServiceMDXOptions.wikidata opts)
             (case ServiceMDXOptions.digital opts of None \<Rightarrow> 7 / 10 | Some d \<Rightarrow> d) ! 5
        = ''description: '' @ orElse (NAICSIndustry.description (ServiceMDXOptions.industry opts)) ''Service type''"
    by (simp add: frontmatterLines_def)
  show ?thesis
    using doc line
    by (simp add: Let_def descriptionParagraph_def orElse_if)
qed

theorem description_precedence_witness:
  "NAICSIndustry.title (ServiceMDXOptions.industry school_options)
     = Some ''Elementary and Secondary Schools''
   \<and> (\<exists>rest. generate (\<lambda>d. ''0.7'') school_options =
         Inr (join ''\<newline>'' (frontmatterLines (\<lambda>d. ''0.7'') ''Elementary and Secondary Schools''
                  school_industry school_classification None (7 / 10))
              @ ''\<newline>\<newline>'' @ generateBreadcrumb school_classification
              @ ''\<newline>\<newline>'' @ ''# Elementary and Secondary Schools''
              @ ''\<newline>\<newline>'' @ ''Elementary and Secondary Schools service.''
              @ ''\<newline>\<newline>'' @ generatePropertiesSection @ rest))
   \<and> frontmatterLines (\<lambda>d. ''0.7'') ''Elementary and Secondary Schools''
         school_industry school_classification None (7 / 10) ! 5 = ''description: Service type''"
proof -
  have f: "ServiceMDXOptions.industry school_options = school_industry"
          "ServiceMDXOptions.classification school_options = school_classification"
          "ServiceMDXOptions.wikidata school_options = None"
          "ServiceMDXOptions.digital school_options = None"
          "NAICSIndustry.description school_industry = Some []"
    by (simp_all add: school_options_def school_industry_def)
  show ?thesis
    using description_precedence[OF school_title, of "\<lambda>d. ''0.7''"] school_title
    by (simp add: f Let_def truthy_def)
qed





text \<open>
  Claim C8. With \<open>examples\<close> false the slot of the examples section holds the empty
  string: the document is the other sections alone, with no heading and no content in
  their place. With \<open>examples\<close> true, or left out, the slot holds the examples
  section, which begins with the heading \<open>## Examples\<close>. In the scenario of the school
  record no line of the document is that heading.
\<close>

theorem examples_section_optional:
  assumes "NAICSIndustry.title (ServiceMDXOptions.industry opts) = Some t"
  shows "generate f (opts\<lparr>ServiceMDXOptions.examples := Some False\<rparr>)
           = Inr (join ''\<newline>'' (documentLines f t opts [[]]))
       \<and> generate f (opts\<lparr>ServiceMDXOptions.examples := Some True\<rparr>)
           = Inr (join ''\<newline>'' (documentLines f t opts (examplesLines t (ServiceMDXOptions.industry opts))))
       \<and> generate f (opts\<lparr>ServiceMDXOptions.examples := None\<rparr>)
           = Inr (join ''\<newline>'' (documentLines f t opts (examplesLines t (ServiceMDXOptions.industry opts))))
       \<and> hd (examplesLines t (ServiceMDXOptions.industry opts)) = ''## Examples''"
  using assms
  by (simp add: generate_lines examplesLines_def Let_def)

theorem examples_section_optional_witness:
  "NAICSIndustry.title (ServiceMDXOptions.industry school_options)
     = Some ''Elementary and Secondary Schools''
   \<and> ServiceMDXOptions.examples school_options = Some False
   \<and> (case generate (\<lambda>d. ''0.7'') school_options of
        Inl e \<Rightarrow> False
      | Inr doc \<Rightarrow>
          list_all (\<lambda>l. l \<noteq> ''## Examples'') (splitLines doc)
          \<and> list_ex (\<lambda>l. l = ''## Resources'') (splitLines doc)
          \<and> list_ex (\<lambda>l. l = ''Elementary and Secondary Schools service.'') (splitLines doc))"
proof -
  define L where "L = documentLines (\<lambda>d. ''0.7'') ''Elementary and Secondary Schools'' school_options [[]]"
  have e: "school_options\<lparr>ServiceMDXOptions.examples := Some False\<rparr> = school_options"
          "ServiceMDXOptions.examples school_options = Some False"
    by (simp_all add: school_options_def)
  have g: "generate (\<lambda>d. ''0.7'') school_options = Inr (join ''\<newline>'' L)"
    using examples_section_optional[OF school_title, of "\<lambda>d. ''0.7''"]
    by (simp add: e L_def)
  have nf: "list_all (\<lambda>l. CHR ''\<newline>'' \<notin> set l) L"
    unfolding L_def by code_simp
  have s: "splitLines (join ''\<newline>'' L) = L"
    using nf by (simp add: splitLines_join L_def documentLines_nonempty)
  have p: "list_all (\<lambda>l. l \<noteq> ''## Examples'') L
          \<and> list_ex (\<lambda>l. l = ''## Resources'') L
          \<and> list_ex (\<lambda>l. l = ''Elementary and Secondary Schools service.'') L"
    unfolding L_def by code_simp
  show ?thesis
    using g s p school_title e(2) by simp
qed

subsection \<open>Digital-delivery score\<close>

text \<open>
  Claim C9. A title that contains one of the keywords, in lower case, scores 1 whatever
  the sector is; a title with no keyword scores the default of its sector when the
  sector is one of the listed ones, and 0.5 otherwise.
\<close>

theorem digital_score_precedence:
  assumes "NAICSIndustry.title i = Some t"
  shows "(titleHasKeyword t \<longrightarrow> calculateDigitalScore i = Inr 1)
       \<and> (\<not> titleHasKeyword t \<longrightarrow>
            calculateDigitalScore i =
              Inr (case map_of sectorDefaults (NAICSSector.code (NAICSIndustry.sector i)) of
                     Some v \<Rightarrow> v
                   | None \<Rightarrow> 5 / 10))"
  using assms
  by (simp add: calculateDigitalScore_def titleHasKeyword_def digitalKeywords_def
      sectorDefaults_def str_includes_def Let_def)

theorem digital_score_precedence_witness:
  "NAICSIndustry.title (mkIndustry ''541511'' ''Custom Computer Programming Services'' [] sector54)
     = Some ''Custom Computer Programming Services''
   \<and> titleHasKeyword ''Custom Computer Programming Services''
   \<and> calculateDigitalScore (mkIndustry ''541511'' ''Custom Computer Programming Services'' [] sector54)
     = Inr 1
   \<and> NAICSIndustry.title (mkIndustry ''722511'' ''Full-Service Restaurants'' [] sector72)
     = Some ''Full-Service Restaurants''
   \<and> \<not> titleHasKeyword ''Full-Service Restaurants''
   \<and> calculateDigitalScore (mkIndustry ''722511'' ''Full-Service Restaurants'' [] sector72)
     = Inr (3 / 10)"
proof -
  have k1: "titleHasKeyword ''Custom Computer Programming Services''"
    by code_simp
  have k2: "\<not> titleHasKeyword ''Full-Service Restaurants''"
    by code_simp
  have t1: "NAICSIndustry.title (mkIndustry ''541511'' ''Custom Computer Programming Services'' [] sector54)
     = Some ''Custom Computer Programming Services''"
    by (simp add: mkIndustry_def)
  have t2: "NAICSIndustry.title (mkIndustry ''722511'' ''Full-Service Restaurants'' [] sector72)
     = Some ''Full-Service Restaurants''"
    by (simp add: mkIndustry_def)
  have s2: "NAICSSector.code (NAICSIndustry.sector (mkIndustry ''722511'' ''Full-Service Restaurants'' [] sector72)) = ''72''"
    by (simp add: mkIndustry_def sector72_def)
  show ?thesis
    using digital_score_precedence[OF t1] digital_score_precedence[OF t2] k1 k2 t1 t2
    by (simp add: s2 sectorDefaults_def)
qed

subsection \<open>Query results\<close>

text \<open>A response without \<open>results\<close>, or without \<open>results.bindings\<close>, gives the
  empty list.\<close>

lemma parseServiceResults_absent:
  "sparql_response.results r = None \<Longrightarrow> parseServiceResults r = Inr []"
  "sparql_response.results r = Some rs \<Longrightarrow> sparql_results.bindings rs = None
     \<Longrightarrow> parseServiceResults r = Inr []"
  by (simp_all add: parseServiceResults_def)

text \<open>A binding is readable when its service has a value and its industry and provider,
  where bound, have one too.\<close>

lemma parseBinding_readable:
  assumes "optValue (sparql_binding.service b) \<noteq> None"
    and "sparql_binding.industry b \<noteq> None \<longrightarrow> optValue (sparql_binding.industry b) \<noteq> None"
    and "sparql_binding.provider b \<noteq> None \<longrightarrow> optValue (sparql_binding.provider b) \<noteq> None"
  shows "\<exists>s. parseBinding b = Inr s"
  using assms
  by (auto simp: parseBinding_def extractQID_def extractQIDIfPresent_def optValue_def
      split: option.splits)

lemma mapRaising_total:
  "(\<And>x. x \<in> set xs \<Longrightarrow> \<exists>y. f x = Inr y)
    \<Longrightarrow> \<exists>ys. mapRaising f xs = Inr ys \<and> length ys = length xs
          \<and> (\<forall>n < length xs. f (xs ! n) = Inr (ys ! n))"
proof (induction xs)
  case Nil
  then show ?case by simp
next
  case (Cons x xs)
  then obtain y where y: "f x = Inr y" by auto
  from Cons obtain ys where ys: "mapRaising f xs = Inr ys" "length ys = length xs"
      "\<forall>n < length xs. f (xs ! n) = Inr (ys ! n)"
    by auto
  show ?case
    using y ys by (auto simp: nth_Cons split: nat.splits)
qed

lemma parseServiceResults_readable:
  assumes "sparql_response.results r = Some rs" "sparql_results.bindings rs = Some bs"
    and "\<And>b. b \<in> set bs \<Longrightarrow> \<exists>s. parseBinding b = Inr s"
  shows "\<exists>ys. parseServiceResults r = Inr ys \<and> length ys = length bs
          \<and> (\<forall>n < length bs. parseBinding (bs ! n) = Inr (ys ! n))"
  using assms mapRaising_total[of bs parseBinding]
  by (simp add: parseServiceResults_def)

text \<open>
  Claim C10. A response with a bindings array is to give one service per binding, in
  order, and a response without one the empty list. The second holds
  (\<open>parseServiceResults_absent\<close>), and so does the first when every binding is
  readable (\<open>parseServiceResults_readable\<close>). But the array may hold a binding whose
  \<open>service\<close> is not bound: \<open>binding.service?.value\<close> is then \<open>undefined\<close>,
  \<open>extractQID\<close> calls \<open>match\<close> on it, and the call ends with a \<open>TypeError\<close>
  instead of a list.
\<close>

theorem parseServiceResults_unbound_service:
  "sparql_response.results unbound_response
     = Some \<lparr> sparql_results.bindings = Some [unbound_binding] \<rparr>
   \<and> parseServiceResults unbound_response = Inl TypeError"
  by (simp add: parseServiceResults_def unbound_response_def unbound_binding_def
      parseBinding_def extractQID_def optValue_def)

end
